theory Spec2Isabelle
  imports Complex_Main
begin

section \<open>JavaScript numbers\<close>

text \<open>
  The engine (\<^verbatim>\<open>services/orbitalMechanics.ts\<close>) computes on JavaScript numbers. A number
  is modelled as a finite real or one of the three special values of IEEE 754, so that a
  division by zero, a square root of a negative number or an arithmetic step on
  \<^verbatim>\<open>undefined\<close> is a value of the model as it is a value of the program. The
  idealisation: a finite result of \<open>+\<close>, \<open>-\<close>, \<open>*\<close>, \<open>/\<close> and of the functions of \<^verbatim>\<open>Math\<close> is
  exact (it is not rounded to a double), and zero has no sign (a division of a nonzero
  number by zero takes the sign of the numerator). The overflow of \<^verbatim>\<open>Math.exp\<close>,
  \<^verbatim>\<open>Math.sinh\<close> and \<^verbatim>\<open>Math.cosh\<close> to Infinity is modelled, at the arguments where the
  run time's implementation overflows. Statements below that rest on exactness say so.
\<close>

datatype number = Num real | PInf | NInf | NaN

instantiation number :: "{plus, minus, uminus, times, inverse, ord}"
begin

fun plus_number :: "number \<Rightarrow> number \<Rightarrow> number" where
  "plus_number (Num x) (Num y) = Num (x + y)"
| "plus_number NaN _ = NaN"
| "plus_number _ NaN = NaN"
| "plus_number PInf NInf = NaN"
| "plus_number NInf PInf = NaN"
| "plus_number PInf _ = PInf"
| "plus_number _ PInf = PInf"
| "plus_number NInf _ = NInf"
| "plus_number _ NInf = NInf"

fun uminus_number :: "number \<Rightarrow> number" where
  "uminus_number (Num x) = Num (- x)"
| "uminus_number PInf = NInf"
| "uminus_number NInf = PInf"
| "uminus_number NaN = NaN"

definition minus_number :: "number \<Rightarrow> number \<Rightarrow> number" where
  "minus_number x y = x + (- y)"

fun times_number :: "number \<Rightarrow> number \<Rightarrow> number" where
  "times_number (Num x) (Num y) = Num (x * y)"
| "times_number NaN _ = NaN"
| "times_number _ NaN = NaN"
| "times_number PInf (Num y) = (if y = 0 then NaN else if 0 < y then PInf else NInf)"
| "times_number NInf (Num y) = (if y = 0 then NaN else if 0 < y then NInf else PInf)"
| "times_number (Num x) PInf = (if x = 0 then NaN else if 0 < x then PInf else NInf)"
| "times_number (Num x) NInf = (if x = 0 then NaN else if 0 < x then NInf else PInf)"
| "times_number PInf PInf = PInf"
| "times_number PInf NInf = NInf"
| "times_number NInf PInf = NInf"
| "times_number NInf NInf = PInf"

fun divide_number :: "number \<Rightarrow> number \<Rightarrow> number" where
  "divide_number (Num x) (Num y) =
     (if y \<noteq> 0 then Num (x / y)
      else if x = 0 then NaN else if 0 < x then PInf else NInf)"
| "divide_number NaN _ = NaN"
| "divide_number _ NaN = NaN"
| "divide_number (Num x) PInf = Num 0"
| "divide_number (Num x) NInf = Num 0"
| "divide_number PInf (Num y) = (if 0 \<le> y then PInf else NInf)"
| "divide_number NInf (Num y) = (if 0 \<le> y then NInf else PInf)"
| "divide_number PInf PInf = NaN"
| "divide_number PInf NInf = NaN"
| "divide_number NInf PInf = NaN"
| "divide_number NInf NInf = NaN"

text \<open>The class of \<open>/\<close> asks for an inverse as well: \<open>1 / x\<close>. The engine does not use it.\<close>

fun inverse_number :: "number \<Rightarrow> number" where
  "inverse_number (Num y) = (if y \<noteq> 0 then Num (1 / y) else PInf)"
| "inverse_number PInf = Num 0"
| "inverse_number NInf = Num 0"
| "inverse_number NaN = NaN"

text \<open>The comparisons \<^verbatim>\<open><\<close> and \<^verbatim>\<open><=\<close>: false as soon as one side is NaN.\<close>

fun less_number :: "number \<Rightarrow> number \<Rightarrow> bool" where
  "less_number (Num x) (Num y) = (x < y)"
| "less_number NaN _ = False"
| "less_number _ NaN = False"
| "less_number _ NInf = False"
| "less_number PInf _ = False"
| "less_number NInf _ = True"
| "less_number _ PInf = True"

fun less_eq_number :: "number \<Rightarrow> number \<Rightarrow> bool" where
  "less_eq_number (Num x) (Num y) = (x \<le> y)"
| "less_eq_number NaN _ = False"
| "less_eq_number _ NaN = False"
| "less_eq_number NInf _ = True"
| "less_eq_number _ PInf = True"
| "less_eq_number _ NInf = False"
| "less_eq_number PInf _ = False"

instance ..

end

subsection \<open>The functions of \<^verbatim>\<open>Math\<close> that the engine calls\<close>

fun Math_abs :: "number \<Rightarrow> number" where
  "Math_abs (Num x) = Num \<bar>x\<bar>"
| "Math_abs PInf = PInf"
| "Math_abs NInf = PInf"
| "Math_abs NaN = NaN"

fun Math_sqrt :: "number \<Rightarrow> number" where
  "Math_sqrt (Num x) = (if x < 0 then NaN else Num (sqrt x))"
| "Math_sqrt PInf = PInf"
| "Math_sqrt NInf = NaN"
| "Math_sqrt NaN = NaN"

text \<open>
  \<^verbatim>\<open>Math.exp\<close> is Infinity for the doubles above \<open>709.782712893384\<close> (there \<open>e\<^sup>x\<close> exceeds
  the largest double) and 0 for the doubles below \<open>-745.13321910194111\<close>.
\<close>

fun Math_exp :: "number \<Rightarrow> number" where
  "Math_exp (Num x) =
     (if 709.782712893384 < x then PInf
      else if x < - 745.13321910194111 then Num 0
      else Num (exp x))"
| "Math_exp PInf = PInf"
| "Math_exp NInf = Num 0"
| "Math_exp NaN = NaN"

fun Math_sin :: "number \<Rightarrow> number" where
  "Math_sin (Num x) = Num (sin x)"
| "Math_sin _ = NaN"

fun Math_cos :: "number \<Rightarrow> number" where
  "Math_cos (Num x) = Num (cos x)"
| "Math_cos _ = NaN"

text \<open>
  \<^verbatim>\<open>Math.sinh\<close> and \<^verbatim>\<open>Math.cosh\<close> overflow for the doubles of absolute value above
  \<open>710.4758600739439\<close>.
\<close>

fun Math_sinh :: "number \<Rightarrow> number" where
  "Math_sinh (Num x) =
     (if 710.4758600739439 < \<bar>x\<bar> then (if 0 < x then PInf else NInf)
      else Num (sinh x))"
| "Math_sinh PInf = PInf"
| "Math_sinh NInf = NInf"
| "Math_sinh NaN = NaN"

fun Math_cosh :: "number \<Rightarrow> number" where
  "Math_cosh (Num x) = (if 710.4758600739439 < \<bar>x\<bar> then PInf else Num (cosh x))"
| "Math_cosh PInf = PInf"
| "Math_cosh NInf = PInf"
| "Math_cosh NaN = NaN"

fun Math_tanh :: "number \<Rightarrow> number" where
  "Math_tanh (Num x) = Num (tanh x)"
| "Math_tanh PInf = Num 1"
| "Math_tanh NInf = Num (- 1)"
| "Math_tanh NaN = NaN"

fun Math_atan :: "number \<Rightarrow> number" where
  "Math_atan (Num x) = Num (arctan x)"
| "Math_atan PInf = Num (pi / 2)"
| "Math_atan NInf = Num (- pi / 2)"
| "Math_atan NaN = NaN"

text \<open>\<^verbatim>\<open>Math.atan2(y, x)\<close>, the angle of the point \<open>(x, y)\<close> in \<open>(-\<pi>, \<pi>]\<close>.\<close>

fun Math_atan2 :: "number \<Rightarrow> number \<Rightarrow> number" where
  "Math_atan2 (Num y) (Num x) =
     (if 0 < x then Num (arctan (y / x))
      else if x < 0 then (if 0 \<le> y then Num (arctan (y / x) + pi) else Num (arctan (y / x) - pi))
      else if 0 < y then Num (pi / 2)
      else if y < 0 then Num (- pi / 2)
      else Num 0)"
| "Math_atan2 NaN _ = NaN"
| "Math_atan2 _ NaN = NaN"
| "Math_atan2 (Num y) PInf = Num 0"
| "Math_atan2 (Num y) NInf = (if 0 \<le> y then Num pi else Num (- pi))"
| "Math_atan2 PInf (Num x) = Num (pi / 2)"
| "Math_atan2 NInf (Num x) = Num (- pi / 2)"
| "Math_atan2 PInf PInf = Num (pi / 4)"
| "Math_atan2 PInf NInf = Num (3 * pi / 4)"
| "Math_atan2 NInf PInf = Num (- pi / 4)"
| "Math_atan2 NInf NInf = Num (- 3 * pi / 4)"

text \<open>\<^verbatim>\<open>Math.pow(x, n)\<close> for an exponent that is a natural number.\<close>

fun Math_pow :: "number \<Rightarrow> nat \<Rightarrow> number" where
  "Math_pow (Num x) n = Num (x ^ n)"
| "Math_pow PInf n = (if n = 0 then Num 1 else PInf)"
| "Math_pow NInf n = (if n = 0 then Num 1 else if odd n then NInf else PInf)"
| "Math_pow NaN n = (if n = 0 then Num 1 else NaN)"

text \<open>\<^verbatim>\<open>Math.max\<close> and \<^verbatim>\<open>Math.min\<close>: NaN as soon as one argument is NaN.\<close>

fun Math_max :: "number \<Rightarrow> number \<Rightarrow> number" where
  "Math_max NaN _ = NaN"
| "Math_max _ NaN = NaN"
| "Math_max x y = (if x < y then y else x)"

fun Math_min :: "number \<Rightarrow> number \<Rightarrow> number" where
  "Math_min NaN _ = NaN"
| "Math_min _ NaN = NaN"
| "Math_min x y = (if y < x then y else x)"

definition Math_PI :: number where
  "Math_PI = Num pi"

section \<open>Constants and data\<close>

text \<open>The table \<^verbatim>\<open>Constants\<close>; only the entries the engine reads.\<close>

definition Constants_AU :: number where
  "Constants_AU = Num 149597870.7"

definition Constants_G :: number where
  "Constants_G = Num (6.67430 / 10 ^ 11)"

definition Constants_SOLAR_MASS :: number where
  "Constants_SOLAR_MASS = Num (1.989 * 10 ^ 30)"

definition Constants_GM_SUN :: number where
  "Constants_GM_SUN = Num (1.327 * 10 ^ 20)"

definition Constants_DAY_SECONDS :: number where
  "Constants_DAY_SECONDS = Num 86400"

definition Constants_YEAR_SECONDS :: number where
  "Constants_YEAR_SECONDS = Num 365.25 * Num 86400"

text \<open>
  \<^verbatim>\<open>OrbitalElements\<close> of \<^verbatim>\<open>types/index.ts\<close>. The fields \<^verbatim>\<open>a, e, i, omega, Omega, M, epoch\<close>
  carry the prefix \<open>el_\<close>, since a record field is a constant of the theory.
\<close>

record OrbitalElements =
  el_a :: number
  el_e :: number
  el_i :: number
  el_omega :: number
  el_Omega :: number
  el_M :: number
  el_epoch :: number

definition PLANETARY_ELEMENTS_Earth :: OrbitalElements where
  "PLANETARY_ELEMENTS_Earth =
     \<lparr>el_a = Num 1.000, el_e = Num 0.017, el_i = Num 0.0, el_omega = Num 114.2,
      el_Omega = Num 0.0, el_M = Num 0, el_epoch = Num 2451545.0\<rparr>"

definition ATLAS_3I_ELEMENTS :: OrbitalElements where
  "ATLAS_3I_ELEMENTS =
     \<lparr>el_a = Num (- 2.1), el_e = Num 6.141, el_i = Num 175.1, el_omega = Num 310.4,
      el_Omega = Num 87.2, el_M = Num 0, el_epoch = Num 2460146.5\<rparr>"

type_synonym vec3 = "number \<times> number \<times> number"

text \<open>
  \<^verbatim>\<open>MissionConfig\<close>. The compile-time type of \<^verbatim>\<open>propulsionType\<close> is the union
  \<^verbatim>\<open>'chemical' | 'ion' | 'nuclear'\<close>; at run time it is whatever string the request
  carried, and the engine uses it as a property key.
\<close>

record MissionConfig =
  launchWindow :: string
  propulsionType :: string
  payload :: "string list"
  trajectoryType :: "string option"
  fuelCapacity :: "number option"
  missionDuration :: "number option"

record TrajectoryPoint =
  pt_time :: number
  pt_position :: vec3
  pt_velocity :: vec3
  pt_fuelMass :: number
  pt_acceleration :: vec3

record InterceptorTrajectory =
  points :: "TrajectoryPoint list"
  totalDeltaV :: number
  totalFuelUsed :: number
  flightTime :: number
  interceptProbability :: number

text \<open>
  The only exception the engine can raise is the run time's \<^verbatim>\<open>TypeError\<close> (a property
  read on \<^verbatim>\<open>undefined\<close>). The other constructors are the failure kinds the
  specification names; no function of the source constructs them.
\<close>

datatype error =
  TypeError | InvalidMissionConfig | NumericalDivergence | UnsupportedOrbitType
  | InvalidOrbitalElements

text \<open>
  The result of reading a property of an object literal by a key that is any string:
  a property of the literal itself, a property inherited from \<^verbatim>\<open>Object.prototype\<close>
  (a function, or the prototype object for \<^verbatim>\<open>__proto__\<close>), or \<^verbatim>\<open>undefined\<close>.
\<close>

datatype 'a property = Own 'a | Inherited | Undefined

definition object_prototype_keys :: "string list" where
  "object_prototype_keys =
     [''constructor'', ''__defineGetter__'', ''__defineSetter__'', ''hasOwnProperty'',
      ''__lookupGetter__'', ''__lookupSetter__'', ''isPrototypeOf'',
      ''propertyIsEnumerable'', ''toString'', ''valueOf'', ''__proto__'',
      ''toLocaleString'']"

definition object_get :: "(string \<times> 'a) list \<Rightarrow> string \<Rightarrow> 'a property" where
  "object_get obj k =
     (case map_of obj k of
        Some v \<Rightarrow> Own v
      | None \<Rightarrow> if k \<in> set object_prototype_keys then Inherited else Undefined)"

text \<open>A property value used as an operand of \<^verbatim>\<open>*\<close>: a function, an object without
  numeric value and \<^verbatim>\<open>undefined\<close> all convert to NaN.\<close>

fun to_number :: "number property \<Rightarrow> number" where
  "to_number (Own v) = v"
| "to_number Inherited = NaN"
| "to_number Undefined = NaN"

section \<open>The class \<^verbatim>\<open>OrbitalMechanics\<close>\<close>

definition degToRad :: "number \<Rightarrow> number" where
  "degToRad degrees = degrees * (Math_PI / Num 180)"

definition meanMotion :: "number \<Rightarrow> number \<Rightarrow> number" where
  "meanMotion semiMajorAxis centralBodyMass =
     (let auInMeters = semiMajorAxis * Constants_AU * Num 1000
      in Math_sqrt (Constants_G * centralBodyMass / Math_pow auInMeters 3))"

subsection \<open>The two Newton-Raphson loops\<close>

text \<open>
  \<^verbatim>\<open>while (Math.abs(deltaE) > tolerance) { ... }\<close> has no iteration count and no exit but
  its condition. The loop is a partial function: \<open>None\<close> is the run that never leaves it.
\<close>

partial_function (option) solveKeplerEquation_loop ::
  "number \<Rightarrow> number \<Rightarrow> number \<Rightarrow> number \<Rightarrow> number \<Rightarrow> number option" where
  "solveKeplerEquation_loop meanAnomaly eccentricity tolerance E deltaE =
     (if tolerance < Math_abs deltaE then
        (let f = E - eccentricity * Math_sin E - meanAnomaly;
             df = Num 1 - eccentricity * Math_cos E;
             deltaE' = f / df
         in solveKeplerEquation_loop meanAnomaly eccentricity tolerance (E - deltaE') deltaE')
      else Some E)"

definition solveKeplerEquation :: "number \<Rightarrow> number \<Rightarrow> number \<Rightarrow> number option" where
  "solveKeplerEquation meanAnomaly eccentricity tolerance =
     solveKeplerEquation_loop meanAnomaly eccentricity tolerance meanAnomaly (Num 1)"

partial_function (option) solveHyperbolicKepler_loop ::
  "number \<Rightarrow> number \<Rightarrow> number \<Rightarrow> number \<Rightarrow> number \<Rightarrow> number option" where
  "solveHyperbolicKepler_loop M e tolerance H deltaH =
     (if tolerance < Math_abs deltaH then
        (let f = e * Math_sinh H - H - M;
             df = e * Math_cosh H - Num 1;
             deltaH' = f / df
         in solveHyperbolicKepler_loop M e tolerance (H - deltaH') deltaH')
      else Some H)"

definition solveHyperbolicKepler :: "number \<Rightarrow> number \<Rightarrow> number \<Rightarrow> number option" where
  "solveHyperbolicKepler M e tolerance = solveHyperbolicKepler_loop M e tolerance M (Num 1)"

text \<open>The default \<^verbatim>\<open>tolerance = 1e-8\<close> of both solvers.\<close>

definition default_tolerance :: number where
  "default_tolerance = Num (1 / 10 ^ 8)"


subsection \<open>Anomalies, state vectors, frames\<close>

definition calculateTrueAnomaly :: "number \<Rightarrow> number \<Rightarrow> number" where
  "calculateTrueAnomaly E e =
     Num 2 * Math_atan2 (Math_sqrt (Num 1 + e) * Math_sin (E / Num 2))
                        (Math_sqrt (Num 1 - e) * Math_cos (E / Num 2))"

definition calculateTrueAnomalyHyperbolic :: "number \<Rightarrow> number \<Rightarrow> number" where
  "calculateTrueAnomalyHyperbolic H e =
     Num 2 * Math_atan (Math_sqrt ((e + Num 1) / (e - Num 1)) * Math_tanh (H / Num 2))"

text \<open>The result \<^verbatim>\<open>{position: [x, y], velocity: [vx, vy]}\<close> as a pair of pairs.\<close>

definition orbitalStateVectors ::
  "OrbitalElements \<Rightarrow> number \<Rightarrow> (number \<times> number) \<times> (number \<times> number)" where
  "orbitalStateVectors elements nu =
     (let a = el_a elements; e = el_e elements;
          r = Math_abs a * (Num 1 - e * e) / (Num 1 + e * Math_cos nu);
          x = r * Math_cos nu;
          y = r * Math_sin nu;
          h = Math_sqrt (Constants_GM_SUN * Math_abs a * (Num 1 - e * e));
          vx = - h * Math_sin nu / r;
          vy = h * (e + Math_cos nu) / r
      in ((x, y), (vx, vy)))"

definition transformToEcliptic ::
  "number \<Rightarrow> number \<Rightarrow> number \<Rightarrow> OrbitalElements \<Rightarrow> vec3" where
  "transformToEcliptic x y z elements =
     (let iRad = degToRad (el_i elements);
          omegaRad = degToRad (el_omega elements);
          OmegaRad = degToRad (el_Omega elements);
          cosOmega = Math_cos omegaRad;
          sinOmega = Math_sin omegaRad;
          cosI = Math_cos iRad;
          sinI = Math_sin iRad;
          cosCapitalOmega = Math_cos OmegaRad;
          sinCapitalOmega = Math_sin OmegaRad;
          X = (cosCapitalOmega * cosOmega - sinCapitalOmega * sinOmega * cosI) * x +
              (- cosCapitalOmega * sinOmega - sinCapitalOmega * cosOmega * cosI) * y;
          Y = (sinCapitalOmega * cosOmega + cosCapitalOmega * sinOmega * cosI) * x +
              (- sinCapitalOmega * sinOmega + cosCapitalOmega * cosOmega * cosI) * y;
          Z = (sinOmega * sinI) * x + (cosOmega * sinI) * y
      in (X, Y, Z))"

text \<open>
  \<^verbatim>\<open>calculatePositionAtTime\<close> returns \<^verbatim>\<open>{position, velocity}\<close>; \<open>None\<close> when the solver
  it calls does not return.
\<close>

definition calculatePositionAtTime :: "OrbitalElements \<Rightarrow> number \<Rightarrow> (vec3 \<times> vec3) option" where
  "calculatePositionAtTime elements time =
     (let a = el_a elements; e = el_e elements; epoch = el_epoch elements;
          dt = (time - epoch) * Constants_DAY_SECONDS
      in if e < Num 1 then
           (let n = meanMotion (Math_abs a) Constants_SOLAR_MASS;
                M = n * dt
            in case solveKeplerEquation M e default_tolerance of
                 None \<Rightarrow> None
               | Some E \<Rightarrow>
                  (let nu = calculateTrueAnomaly E e;
                       stateVectors = orbitalStateVectors elements nu;
                       (x, y) = fst stateVectors;
                       (vx, vy) = snd stateVectors;
                       (X, Y, Z) = transformToEcliptic x y (Num 0) elements;
                       (VX, VY, VZ) = transformToEcliptic vx vy (Num 0) elements
                   in Some ((X / Constants_AU, Y / Constants_AU, Z / Constants_AU),
                            (VX / Num 1000, VY / Num 1000, VZ / Num 1000))))
         else
           (let n = Math_sqrt (Constants_GM_SUN /
                      Math_pow (Math_abs a * Constants_AU * Num 1000) 3);
                M = n * dt
            in case solveHyperbolicKepler M e default_tolerance of
                 None \<Rightarrow> None
               | Some H \<Rightarrow>
                  (let nu = calculateTrueAnomalyHyperbolic H e;
                       stateVectors = orbitalStateVectors elements nu;
                       (x, y) = fst stateVectors;
                       (vx, vy) = snd stateVectors;
                       (X, Y, Z) = transformToEcliptic x y (Num 0) elements;
                       (VX, VY, VZ) = transformToEcliptic vx vy (Num 0) elements
                   in Some ((X / Constants_AU, Y / Constants_AU, Z / Constants_AU),
                            (VX / Num 1000, VY / Num 1000, VZ / Num 1000)))))"

subsection \<open>The trajectory estimate\<close>

definition calculateDeltaV :: "vec3 \<Rightarrow> vec3 \<Rightarrow> number \<Rightarrow> number" where
  "calculateDeltaV r1 r2 timeOfFlight =
     (let (r1_0, r1_1, r1_2) = r1; (r2_0, r2_1, r2_2) = r2;
          r1Mag = Math_sqrt (r1_0 * r1_0 + r1_1 * r1_1 + r1_2 * r1_2);
          r2Mag = Math_sqrt (r2_0 * r2_0 + r2_1 * r2_1 + r2_2 * r2_2);
          a = (r1Mag + r2Mag) / Num 2;
          v1 = Math_sqrt (Constants_GM_SUN * (Num 2 / r1Mag - Num 1 / a));
          v2 = Math_sqrt (Constants_GM_SUN * (Num 2 / r2Mag - Num 1 / a));
          vCirc1 = Math_sqrt (Constants_GM_SUN / r1Mag);
          vCirc2 = Math_sqrt (Constants_GM_SUN / r2Mag);
          deltaV1 = Math_abs (v1 - vCirc1);
          deltaV2 = Math_abs (v2 - vCirc2)
      in deltaV1 + deltaV2)"

definition calculateFuelMass :: "number \<Rightarrow> number \<Rightarrow> number \<Rightarrow> number" where
  "calculateFuelMass deltaV isp dryMass =
     (let ve = isp * Num 9.81;
          massRatio = Math_exp (deltaV / ve)
      in dryMass * (massRatio - Num 1))"

definition propulsionMultiplier :: "(string \<times> number) list" where
  "propulsionMultiplier =
     [(''chemical'', Num 0.9), (''ion'', Num 0.95), (''nuclear'', Num 0.85)]"

definition calculateInterceptProbability ::
  "number \<Rightarrow> number \<Rightarrow> MissionConfig \<Rightarrow> number" where
  "calculateInterceptProbability deltaV timeOfFlight config =
     (let baseProbability = Num 0.85;
          baseProbability =
            (if Num 15000 < deltaV then baseProbability * Num 0.7
             else if Num 10000 < deltaV then baseProbability * Num 0.85
             else baseProbability);
          flightTimeYears = timeOfFlight / Constants_YEAR_SECONDS;
          baseProbability =
            (if Num 2 < flightTimeYears then baseProbability * Num 0.8
             else if Num 1 < flightTimeYears then baseProbability * Num 0.9
             else baseProbability);
          baseProbability =
            baseProbability * to_number (object_get propulsionMultiplier (propulsionType config))
      in Math_max (Num 0.1) (Math_min (Num 0.99) baseProbability))"

text \<open>The table \<^verbatim>\<open>propulsionEfficiency\<close>: \<^verbatim>\<open>{isp, thrust}\<close> per propulsion type.\<close>

definition propulsionEfficiency :: "(string \<times> (number \<times> number)) list" where
  "propulsionEfficiency =
     [(''chemical'', (Num 450, Num 100000)), (''ion'', (Num 3000, Num 100)),
      (''nuclear'', (Num 900, Num 50000))]"

text \<open>
  The read \<^verbatim>\<open>propulsion.isp\<close>: it throws when \<^verbatim>\<open>propulsion\<close> is \<^verbatim>\<open>undefined\<close>, and is
  \<^verbatim>\<open>undefined\<close> (NaN in the product that follows) when \<^verbatim>\<open>propulsion\<close> is a property
  inherited from \<^verbatim>\<open>Object.prototype\<close>, which has no field \<^verbatim>\<open>isp\<close>.
\<close>

fun property_isp :: "(number \<times> number) property \<Rightarrow> error + number" where
  "property_isp (Own p) = Inr (fst p)"
| "property_isp Inherited = Inr NaN"
| "property_isp Undefined = Inl TypeError"

definition vec_map :: "(number \<Rightarrow> number) \<Rightarrow> vec3 \<Rightarrow> vec3" where
  "vec_map g v = (case v of (v0, v1, v2) \<Rightarrow> (g v0, g v1, g v2))"

text \<open>
  The body of the \<^verbatim>\<open>for\<close> loop at index \<open>i\<close>. \<open>now\<close> is the value \<^verbatim>\<open>Date.now()\<close> returns
  in that iteration: the source reads the wall clock once per point.
\<close>

definition trajectoryPoint ::
  "real \<Rightarrow> vec3 \<Rightarrow> vec3 \<Rightarrow> number \<Rightarrow> number \<Rightarrow> nat \<Rightarrow> nat \<Rightarrow> TrajectoryPoint" where
  "trajectoryPoint now r1 r2 timeOfFlight fuelMass steps i =
     (let (r1_0, r1_1, r1_2) = r1; (r2_0, r2_1, r2_2) = r2;
          t = Num (real i) / Num (real steps);
          currentTime = Num now + t * timeOfFlight * Num 1000;
          position = (r1_0 + t * (r2_0 - r1_0),
                      r1_1 + t * (r2_1 - r1_1),
                      r1_2 + t * (r2_2 - r1_2));
          velocity = ((r2_0 - r1_0) / timeOfFlight,
                      (r2_1 - r1_1) / timeOfFlight,
                      (r2_2 - r1_2) / timeOfFlight);
          acceleration = (Num 0, Num 0, Num 0)
      in \<lparr>pt_time = currentTime,
          pt_position = vec_map (\<lambda>x. x / Constants_AU / Num 1000) position,
          pt_velocity = vec_map (\<lambda>x. x / Num 1000) velocity,
          pt_fuelMass = fuelMass * (Num 1 - t),
          pt_acceleration = acceleration\<rparr>)"

text \<open>
  \<^verbatim>\<open>calculateInterceptTrajectory\<close>. The first argument is the wall clock: \<open>clock i\<close> is
  what \<^verbatim>\<open>Date.now()\<close> returns in iteration \<open>i\<close>. The \<^verbatim>\<open>catch\<close> block logs and rethrows,
  so the error of the body is the error of the call. \<^verbatim>\<open>calculateDeltaV\<close> cannot throw, so
  evaluating it before or after the read of \<^verbatim>\<open>propulsion.isp\<close> gives the same result.
\<close>

definition calculateInterceptTrajectory ::
  "(nat \<Rightarrow> real) \<Rightarrow> vec3 \<Rightarrow> vec3 \<Rightarrow> number \<Rightarrow> MissionConfig \<Rightarrow> error + InterceptorTrajectory" where
  "calculateInterceptTrajectory clock startPosition targetPosition timeOfFlight config =
     (let r1 = vec_map (\<lambda>x. x * Constants_AU * Num 1000) startPosition;
          r2 = vec_map (\<lambda>x. x * Constants_AU * Num 1000) targetPosition;
          propulsion = object_get propulsionEfficiency (propulsionType config);
          totalDeltaV = calculateDeltaV r1 r2 timeOfFlight
      in case property_isp propulsion of
           Inl err \<Rightarrow> Inl err
         | Inr isp \<Rightarrow>
            (let fuelMass = calculateFuelMass totalDeltaV isp (Num 1000);
                 steps = 100;
                 points = map (\<lambda>i. trajectoryPoint (clock i) r1 r2 timeOfFlight fuelMass steps i)
                            [0 ..< Suc steps];
                 interceptProbability =
                   calculateInterceptProbability totalDeltaV timeOfFlight config
             in Inr \<lparr>points = points,
                     totalDeltaV = totalDeltaV,
                     totalFuelUsed = fuelMass,
                     flightTime = timeOfFlight,
                     interceptProbability = interceptProbability\<rparr>))"

section \<open>Auxiliary definitions\<close>

text \<open>The Euclidean length of a vector, as \<^verbatim>\<open>calculateDeltaV\<close> computes \<^verbatim>\<open>r1Mag\<close>.\<close>

definition magnitude :: "vec3 \<Rightarrow> number" where
  "magnitude v = (case v of (x, y, z) \<Rightarrow> Math_sqrt (x * x + y * y + z * z))"

text \<open>A wall clock that reads \<open>t\<close> at every call.\<close>

definition frozen_clock :: "real \<Rightarrow> nat \<Rightarrow> real" where
  "frozen_clock t i = t"

text \<open>A request that passes the route's validation but for its propulsion type.\<close>

definition mission_with :: "string \<Rightarrow> MissionConfig" where
  "mission_with propulsion =
     \<lparr>launchWindow = ''2026-01-01T00:00:00.000Z'', propulsionType = propulsion,
      payload = [''camera''], trajectoryType = None, fuelCapacity = None,
      missionDuration = None\<rparr>"

text \<open>The conversion of a position to meters, and the record
  \<^verbatim>\<open>calculateInterceptTrajectory\<close> returns once \<^verbatim>\<open>propulsion.isp\<close> has been read.\<close>

definition meters :: "vec3 \<Rightarrow> vec3" where
  "meters v = vec_map (\<lambda>x. x * Constants_AU * Num 1000) v"

definition trajectory_record ::
  "(nat \<Rightarrow> real) \<Rightarrow> vec3 \<Rightarrow> vec3 \<Rightarrow> number \<Rightarrow> MissionConfig \<Rightarrow> number \<Rightarrow> InterceptorTrajectory" where
  "trajectory_record clock s t tof config isp =
     \<lparr>points = map (\<lambda>i. trajectoryPoint (clock i) (meters s) (meters t) tof
                 (calculateFuelMass (calculateDeltaV (meters s) (meters t) tof) isp (Num 1000))
                 100 i) [0 ..< Suc 100],
      totalDeltaV = calculateDeltaV (meters s) (meters t) tof,
      totalFuelUsed = calculateFuelMass (calculateDeltaV (meters s) (meters t) tof) isp (Num 1000),
      flightTime = tof,
      interceptProbability =
        calculateInterceptProbability (calculateDeltaV (meters s) (meters t) tof) tof config\<rparr>"

text \<open>The value of \<^verbatim>\<open>calculateDeltaV\<close> on two positive finite distances.\<close>

definition GM :: real where
  "GM = 1.327 * 10 ^ 20"

definition deltaV_real :: "real \<Rightarrow> real \<Rightarrow> real" where
  "deltaV_real m1 m2 =
     \<bar>sqrt (GM * (2 / m1 - 1 / ((m1 + m2) / 2))) - sqrt (GM / m1)\<bar> +
     \<bar>sqrt (GM * (2 / m2 - 1 / ((m1 + m2) / 2))) - sqrt (GM / m2)\<bar>"

text \<open>
  The success estimate in the words of the specification: base 0.85; times 0.7 if
  \<open>\<Delta>V > 15000\<close>, else 0.85 if \<open>\<Delta>V > 10000\<close>; times 0.8 if the flight time exceeds two years,
  else 0.9 if it exceeds one; times the propulsion factor; clamped to \<open>[0.10, 0.99]\<close>.
\<close>

definition year_seconds :: real where
  "year_seconds = 365.25 * 86400"

definition spec_interceptProbability :: "real \<Rightarrow> real \<Rightarrow> string \<Rightarrow> real" where
  "spec_interceptProbability deltaV tof propulsion =
     (let p = 0.85;
          p = p * (if 15000 < deltaV then 0.7 else if 10000 < deltaV then 0.85 else 1);
          p = p * (if 2 * year_seconds < tof then 0.8
                   else if year_seconds < tof then 0.9 else 1);
          p = p * (if propulsion = ''chemical'' then 0.9
                   else if propulsion = ''ion'' then 0.95 else 0.85)
      in max 0.10 (min 0.99 p))"



text \<open>A number that is neither NaN nor infinite.\<close>

fun finite_number :: "number \<Rightarrow> bool" where
  "finite_number (Num x) = True"
| "finite_number _ = False"

section \<open>Arithmetic of numbers\<close>

lemma Num_minus [simp]: "Num x - Num y = Num (x - y)"
  by (simp add: minus_number_def)

lemma NaN_arith [simp]:
  "x * NaN = NaN" "NaN * x = NaN" "x + NaN = NaN" "NaN + x = NaN"
  "x / NaN = NaN" "NaN / x = NaN" "x - NaN = NaN" "NaN - x = NaN"
  by (cases x; simp add: minus_number_def)+

lemma Math_min_NaN [simp]: "Math_min x NaN = NaN"
  by (cases x) simp_all

lemma Math_max_NaN [simp]: "Math_max x NaN = NaN"
  by (cases x) simp_all

section \<open>The success estimate\<close>

text \<open>
  Claim C7. For finite \<open>deltaV\<close> and flight time and a propulsion type among chemical, ion
  and nuclear, \<^verbatim>\<open>calculateInterceptProbability\<close> returns exactly the piecewise product of
  the specification, clamped to \<open>[0.10, 0.99]\<close>.
\<close>

theorem calculateInterceptProbability_piecewise:
  assumes "propulsionType config \<in> {''chemical'', ''ion'', ''nuclear''}"
  shows "calculateInterceptProbability (Num deltaV) (Num tof) config =
         Num (spec_interceptProbability deltaV tof (propulsionType config))"
  using assms
  by (auto simp add: calculateInterceptProbability_def spec_interceptProbability_def Let_def
        propulsionMultiplier_def object_get_def Constants_YEAR_SECONDS_def year_seconds_def)

text \<open>Witness of C7: an ion mission, \<open>\<Delta>V\<close> of 12 km/s, a flight of 40 000 000 s.\<close>

theorem calculateInterceptProbability_piecewise_witness:
  "propulsionType (mission_with ''ion'') \<in> {''chemical'', ''ion'', ''nuclear''} \<and>
   calculateInterceptProbability (Num 12000) (Num 40000000) (mission_with ''ion'') =
     Num (0.85 * 0.85 * 0.9 * 0.95)"
proof -
  have h: "propulsionType (mission_with ''ion'') \<in> {''chemical'', ''ion'', ''nuclear''}"
    by (simp add: mission_with_def)
  have "spec_interceptProbability 12000 40000000 (propulsionType (mission_with ''ion''))
        = 0.85 * 0.85 * 0.9 * 0.95"
    by (simp add: spec_interceptProbability_def year_seconds_def mission_with_def Let_def)
  then show ?thesis
    using h calculateInterceptProbability_piecewise [OF h, of 12000 40000000] by simp
qed

text \<open>
  Claim C10. \<^verbatim>\<open>calculateInterceptProbability\<close> reads the mission configuration only through
  \<^verbatim>\<open>propulsionType\<close>: two configurations with the same propulsion type give the same
  probability for the same \<open>deltaV\<close> and flight time, whatever their other fields.
\<close>

theorem interceptProbability_only_propulsionType:
  assumes "propulsionType c1 = propulsionType c2"
  shows "calculateInterceptProbability deltaV tof c1 = calculateInterceptProbability deltaV tof c2"
  using assms by (simp add: calculateInterceptProbability_def)

text \<open>Witness of C10: two nuclear missions that differ in every other field.\<close>

theorem interceptProbability_only_propulsionType_witness:
  "propulsionType (mission_with ''nuclear'') =
     propulsionType \<lparr>launchWindow = ''2031-07-04T12:00:00.000Z'', propulsionType = ''nuclear'',
       payload = [''probe'', ''spectrometer''], trajectoryType = Some ''hohmann'',
       fuelCapacity = Some (Num 5000), missionDuration = Some (Num 900)\<rparr> \<and>
   calculateInterceptProbability (Num 16000) (Num 70000000) (mission_with ''nuclear'') =
   calculateInterceptProbability (Num 16000) (Num 70000000)
     \<lparr>launchWindow = ''2031-07-04T12:00:00.000Z'', propulsionType = ''nuclear'',
       payload = [''probe'', ''spectrometer''], trajectoryType = Some ''hohmann'',
       fuelCapacity = Some (Num 5000), missionDuration = Some (Num 900)\<rparr>"
proof -
  have h: "propulsionType (mission_with ''nuclear'') =
     propulsionType \<lparr>launchWindow = ''2031-07-04T12:00:00.000Z'', propulsionType = ''nuclear'',
       payload = [''probe'', ''spectrometer''], trajectoryType = Some ''hohmann'',
       fuelCapacity = Some (Num 5000), missionDuration = Some (Num 900)\<rparr>"
    by (simp add: mission_with_def)
  show ?thesis
    using h interceptProbability_only_propulsionType [OF h] by blast
qed

section \<open>The rocket equation\<close>

lemma Math_exp_mono:
  assumes "x \<le> y"
  shows "Math_exp (Num x) \<le> Math_exp (Num y)"
  using assms by auto

lemma Math_exp_range: "Math_exp (Num x) \<noteq> NaN" "Math_exp (Num x) \<noteq> NInf"
  by simp_all

lemma scale_mono:
  assumes "0 < d" "m1 \<le> m2" "m1 \<noteq> NInf"
  shows "Num d * (m1 - Num 1) \<le> Num d * (m2 - Num 1)"
  using assms by (cases m1; cases m2) (simp_all add: minus_number_def)

text \<open>
  Claim C8, as the specification states it, fails in its second part: above
  \<open>deltaV / (isp \<sqdot> 9.81) = 709.78\<close> the exponential overflows and the fuel mass is Infinity
  for every \<open>deltaV\<close>. Here with the chemical engine: 4000 km/s and 5000 km/s need the same
  fuel mass, Infinity.
\<close>

theorem calculateFuelMass_overflow_counterexample:
  "calculateFuelMass (Num 4000000) (Num 450) (Num 1000) = PInf
   \<and> calculateFuelMass (Num 5000000) (Num 450) (Num 1000) = PInf
   \<and> \<not> calculateFuelMass (Num 4000000) (Num 450) (Num 1000)
         < calculateFuelMass (Num 5000000) (Num 450) (Num 1000)"
  by (simp add: calculateFuelMass_def Let_def minus_number_def)

text \<open>
  Claim C8, amended. For a specific impulse \<open>isp > 0\<close> and a dry mass \<open>dryMass > 0\<close>,
  \<^verbatim>\<open>calculateFuelMass(0, isp, dryMass)\<close> is exactly 0 and \<^verbatim>\<open>calculateFuelMass\<close> never
  decreases when \<open>deltaV\<close> grows. It is not strictly increasing.
\<close>

theorem calculateFuelMass_zero_and_nondecreasing:
  assumes "0 < isp" and "0 < dryMass"
  shows "calculateFuelMass (Num 0) (Num isp) (Num dryMass) = Num 0 \<and>
         (\<forall>dv1 dv2. dv1 \<le> dv2 \<longrightarrow>
            calculateFuelMass (Num dv1) (Num isp) (Num dryMass)
              \<le> calculateFuelMass (Num dv2) (Num isp) (Num dryMass))"
proof -
  have ve: "isp * 9.81 \<noteq> 0" "0 < isp * 9.81" using assms(1) by simp_all
  have zero: "calculateFuelMass (Num 0) (Num isp) (Num dryMass) = Num 0"
    using ve by (simp add: calculateFuelMass_def Let_def)
  have mono: "calculateFuelMass (Num dv1) (Num isp) (Num dryMass)
              \<le> calculateFuelMass (Num dv2) (Num isp) (Num dryMass)"
    if "dv1 \<le> dv2" for dv1 dv2
  proof -
    have q: "dv1 / (isp * 9.81) \<le> dv2 / (isp * 9.81)"
      using that ve(2) by (simp add: divide_right_mono)
    have f: "calculateFuelMass (Num dv) (Num isp) (Num dryMass) =
        Num dryMass * (Math_exp (Num (dv / (isp * 9.81))) - Num 1)" for dv
      using ve(1) by (simp add: calculateFuelMass_def Let_def del: Math_exp.simps)
    show ?thesis
      unfolding f
      by (rule scale_mono [OF assms(2) Math_exp_mono [OF q] Math_exp_range(2)])
  qed
  from zero mono show ?thesis by blast
qed

text \<open>Witness of C8 amended: the chemical engine (\<open>isp = 450\<close>) and the dry mass of 1000 kg.\<close>

theorem calculateFuelMass_zero_and_nondecreasing_witness:
  "(0::real) < 450 \<and> (0::real) < 1000 \<and>
   calculateFuelMass (Num 0) (Num 450) (Num 1000) = Num 0 \<and>
   calculateFuelMass (Num 0) (Num 450) (Num 1000) \<le> calculateFuelMass (Num 5600) (Num 450) (Num 1000)"
proof -
  have h1: "(0::real) < 450" and h2: "(0::real) < 1000" by simp_all
  have h3: "(0::real) \<le> 5600" by simp
  show ?thesis
    using h1 h2 h3 calculateFuelMass_zero_and_nondecreasing [OF h1 h2] by blast
qed

section \<open>The trajectory builder\<close>

lemma calculateInterceptTrajectory_eq:
  "calculateInterceptTrajectory clock s t tof config =
     (case property_isp (object_get propulsionEfficiency (propulsionType config)) of
        Inl err \<Rightarrow> Inl err
      | Inr isp \<Rightarrow> Inr (trajectory_record clock s t tof config isp))"
  by (simp add: calculateInterceptTrajectory_def meters_def trajectory_record_def Let_def
        del: upt_Suc split: sum.splits)

lemma calculateInterceptTrajectory_Inr:
  assumes "calculateInterceptTrajectory clock s t tof config = Inr traj"
  shows "\<exists>isp. property_isp (object_get propulsionEfficiency (propulsionType config)) = Inr isp
           \<and> traj = trajectory_record clock s t tof config isp"
  using assms by (auto simp add: calculateInterceptTrajectory_eq split: sum.splits)

lemma valid_isp:
  assumes "propulsionType config \<in> {''chemical'', ''ion'', ''nuclear''}"
  shows "\<exists>isp. 0 < isp \<and>
           property_isp (object_get propulsionEfficiency (propulsionType config)) = Inr (Num isp)"
  using assms by (auto simp add: object_get_def propulsionEfficiency_def)

lemma length_points: "length (points (trajectory_record clock s t tof config isp)) = 101"
  by (simp add: trajectory_record_def del: upt_Suc)

lemma points_nth:
  "i \<le> 100 \<Longrightarrow> points (trajectory_record clock s t tof config isp) ! i =
     trajectoryPoint (clock i) (meters s) (meters t) tof
       (calculateFuelMass (calculateDeltaV (meters s) (meters t) tof) isp (Num 1000)) 100 i"
  by (simp add: trajectory_record_def del: upt_Suc)

lemma trajectoryPoint_time:
  "pt_time (trajectoryPoint now r1 r2 tof fuel 100 i) =
     Num now + Num (real i / 100) * tof * Num 1000"
  by (cases r1, cases r2) (simp add: trajectoryPoint_def Let_def)

lemma trajectoryPoint_clock:
  "trajectoryPoint now' r1 r2 tof fuel 100 i =
     (trajectoryPoint now r1 r2 tof fuel 100 i)
       \<lparr>pt_time := Num now' + Num (real i / 100) * tof * Num 1000\<rparr>"
  by (cases r1, cases r2) (simp add: trajectoryPoint_def Let_def)

lemma trajectoryPoint_velocity:
  "pt_velocity (trajectoryPoint now (meters (s0, s1, s2)) (meters (t0, t1, t2)) tof fuel n i) =
     ((t0 * Constants_AU * Num 1000 - s0 * Constants_AU * Num 1000) / tof / Num 1000,
      (t1 * Constants_AU * Num 1000 - s1 * Constants_AU * Num 1000) / tof / Num 1000,
      (t2 * Constants_AU * Num 1000 - s2 * Constants_AU * Num 1000) / tof / Num 1000)"
  by (simp add: trajectoryPoint_def meters_def vec_map_def Let_def)

text \<open>
  Claim C9. Whenever \<^verbatim>\<open>calculateInterceptTrajectory\<close> returns, its 101 points all carry
  the same velocity: componentwise, target minus start in meters, divided by the flight
  time, divided by 1000 (km/s). The velocity does not depend on the index of the point.
\<close>

theorem trajectory_velocity_constant:
  assumes "calculateInterceptTrajectory clock (s0, s1, s2) (t0, t1, t2) tof config = Inr traj"
  shows "length (points traj) = 101 \<and>
    (\<forall>p \<in> set (points traj). pt_velocity p =
       ((t0 * Constants_AU * Num 1000 - s0 * Constants_AU * Num 1000) / tof / Num 1000,
        (t1 * Constants_AU * Num 1000 - s1 * Constants_AU * Num 1000) / tof / Num 1000,
        (t2 * Constants_AU * Num 1000 - s2 * Constants_AU * Num 1000) / tof / Num 1000))"
proof -
  from calculateInterceptTrajectory_Inr [OF assms] obtain isp where
    tr: "traj = trajectory_record clock (s0, s1, s2) (t0, t1, t2) tof config isp"
    by auto
  have "pt_velocity p =
       ((t0 * Constants_AU * Num 1000 - s0 * Constants_AU * Num 1000) / tof / Num 1000,
        (t1 * Constants_AU * Num 1000 - s1 * Constants_AU * Num 1000) / tof / Num 1000,
        (t2 * Constants_AU * Num 1000 - s2 * Constants_AU * Num 1000) / tof / Num 1000)"
    if "p \<in> set (points traj)" for p
    using that unfolding tr trajectory_record_def
    by (auto simp add: trajectoryPoint_velocity simp del: upt_Suc)
  then show ?thesis
    by (simp add: tr length_points)
qed

text \<open>
  Witness of C9: Earth's distance to Mars's distance in 200 days, chemical propulsion.
  The point of index 37 moves at \<open>0.524 AU / 200 d\<close> along the first axis.
\<close>

theorem trajectory_velocity_constant_witness:
  "\<exists>traj. calculateInterceptTrajectory (frozen_clock 0) (Num 1, Num 0, Num 0)
            (Num 1.524, Num 0, Num 0) (Num 17280000) (mission_with ''chemical'') = Inr traj
     \<and> length (points traj) = 101
     \<and> pt_velocity (points traj ! 37) =
         (Num ((1.524 * 149597870.7 * 1000 - 1 * 149597870.7 * 1000) / 17280000 / 1000),
          Num 0, Num 0)"
proof -
  obtain isp where "property_isp (object_get propulsionEfficiency
      (propulsionType (mission_with ''chemical''))) = Inr isp"
    by (auto simp add: object_get_def propulsionEfficiency_def mission_with_def)
  then obtain traj where call: "calculateInterceptTrajectory (frozen_clock 0) (Num 1, Num 0, Num 0)
            (Num 1.524, Num 0, Num 0) (Num 17280000) (mission_with ''chemical'') = Inr traj"
    by (simp add: calculateInterceptTrajectory_eq)
  note v = trajectory_velocity_constant [OF call]
  then have "points traj ! 37 \<in> set (points traj)"
    by simp
  with v have "pt_velocity (points traj ! 37) =
       ((Num 1.524 * Constants_AU * Num 1000 - Num 1 * Constants_AU * Num 1000)
           / Num 17280000 / Num 1000,
        (Num 0 * Constants_AU * Num 1000 - Num 0 * Constants_AU * Num 1000)
           / Num 17280000 / Num 1000,
        (Num 0 * Constants_AU * Num 1000 - Num 0 * Constants_AU * Num 1000)
           / Num 17280000 / Num 1000)"
    by blast
  then have "pt_velocity (points traj ! 37) =
         (Num ((1.524 * 149597870.7 * 1000 - 1 * 149597870.7 * 1000) / 17280000 / 1000),
          Num 0, Num 0)"
    by (simp add: Constants_AU_def)
  with call v show ?thesis by blast
qed

text \<open>
  Claim C6, as the specification states it, fails: a propulsion type outside the three
  makes \<^verbatim>\<open>calculateInterceptTrajectory\<close> throw the run time's \<^verbatim>\<open>TypeError\<close>, and makes
  \<^verbatim>\<open>calculateInterceptProbability\<close> return NaN without any failure. Here with
  \<^verbatim>\<open>propulsionType = 'warp'\<close>.
\<close>

theorem unknown_propulsion_counterexample:
  "calculateInterceptTrajectory (frozen_clock 0) (Num 1, Num 0, Num 0) (Num 1.524, Num 0, Num 0)
     (Num 17280000) (mission_with ''warp'') = Inl TypeError
   \<and> calculateInterceptTrajectory (frozen_clock 0) (Num 1, Num 0, Num 0) (Num 1.524, Num 0, Num 0)
     (Num 17280000) (mission_with ''warp'') \<noteq> Inl InvalidMissionConfig
   \<and> calculateInterceptProbability (Num 12000) (Num 17280000) (mission_with ''warp'') = NaN"
  by (simp add: calculateInterceptTrajectory_eq calculateInterceptProbability_def Let_def
        propulsionEfficiency_def propulsionMultiplier_def object_prototype_keys_def
        object_get_def mission_with_def)

text \<open>
  Claim C6, amended. For a propulsion type that is not chemical, ion or nuclear, no call
  fails with \<^verbatim>\<open>InvalidMissionConfig\<close>: \<^verbatim>\<open>calculateInterceptProbability\<close> returns NaN;
  \<^verbatim>\<open>calculateInterceptTrajectory\<close> throws \<^verbatim>\<open>TypeError\<close>, unless the string names a property
  of \<^verbatim>\<open>Object.prototype\<close>, in which case it returns a trajectory whose fuel use and
  probability are NaN.
\<close>

theorem unknown_propulsion_behaviour:
  assumes "propulsionType config \<notin> {''chemical'', ''ion'', ''nuclear''}"
  shows "calculateInterceptProbability deltaV tof config = NaN
    \<and> calculateInterceptTrajectory clock s t tof config \<noteq> Inl InvalidMissionConfig
    \<and> (if propulsionType config \<in> set object_prototype_keys
        then \<exists>traj. calculateInterceptTrajectory clock s t tof config = Inr traj
               \<and> totalFuelUsed traj = NaN \<and> interceptProbability traj = NaN
        else calculateInterceptTrajectory clock s t tof config = Inl TypeError)"
proof -
  have m: "to_number (object_get propulsionMultiplier (propulsionType config)) = NaN"
    using assms by (simp add: propulsionMultiplier_def object_get_def)
  have e: "object_get propulsionEfficiency (propulsionType config) =
     (if propulsionType config \<in> set object_prototype_keys then Inherited else Undefined)"
    using assms by (simp add: propulsionEfficiency_def object_get_def)
  have p: "calculateInterceptProbability dv tof config = NaN" for dv
    by (simp add: calculateInterceptProbability_def Let_def m)
  have f: "calculateFuelMass dv NaN (Num 1000) = NaN" for dv
    by (simp add: calculateFuelMass_def)
  show ?thesis
    by (simp add: p calculateInterceptTrajectory_eq trajectory_record_def e f del: upt_Suc)
qed

text \<open>Witness of C6 amended: the propulsion types \<^verbatim>\<open>'warp'\<close> and \<^verbatim>\<open>'toString'\<close>.\<close>

theorem unknown_propulsion_behaviour_witness:
  "propulsionType (mission_with ''warp'') \<notin> {''chemical'', ''ion'', ''nuclear''}
   \<and> calculateInterceptProbability (Num 9000) (Num 31536000) (mission_with ''warp'') = NaN
   \<and> calculateInterceptTrajectory (frozen_clock 0) (Num 1, Num 0, Num 0) (Num 0, Num 2, Num 0)
       (Num 31536000) (mission_with ''warp'') = Inl TypeError"
proof -
  have h: "propulsionType (mission_with ''warp'') \<notin> {''chemical'', ''ion'', ''nuclear''}"
    by (simp add: mission_with_def)
  have k: "propulsionType (mission_with ''warp'') \<notin> set object_prototype_keys"
    by (simp add: mission_with_def object_prototype_keys_def)
  show ?thesis
    using h k unknown_propulsion_behaviour [OF h, of "Num 9000" "Num 31536000" "frozen_clock 0"
        "(Num 1, Num 0, Num 0)" "(Num 0, Num 2, Num 0)"]
    by simp
qed

text \<open>
  Claim C5, as the specification states it, fails: the builder takes no reference instant
  and reads the wall clock for every point, so two calls with identical arguments give
  different results when the clock has moved. Here the clock reads 0 in one call and 1 in
  the other; the first timestamps are 0 and 1.
\<close>

theorem trajectory_depends_on_clock_counterexample:
  "calculateInterceptTrajectory (frozen_clock 0) (Num 1, Num 0, Num 0) (Num 1.524, Num 0, Num 0)
     (Num 17280000) (mission_with ''chemical'')
   \<noteq> calculateInterceptTrajectory (frozen_clock 1) (Num 1, Num 0, Num 0) (Num 1.524, Num 0, Num 0)
     (Num 17280000) (mission_with ''chemical'')"
proof
  let ?c = "\<lambda>clock. calculateInterceptTrajectory clock (Num 1, Num 0, Num 0)
     (Num 1.524, Num 0, Num 0) (Num 17280000) (mission_with ''chemical'')"
  let ?stamp = "\<lambda>r. case r of Inl err \<Rightarrow> None | Inr traj \<Rightarrow> Some (pt_time (points traj ! 0))"
  assume eq: "?c (frozen_clock 0) = ?c (frozen_clock 1)"
  obtain isp where isp: "property_isp (object_get propulsionEfficiency
      (propulsionType (mission_with ''chemical''))) = Inr isp"
    by (auto simp add: object_get_def propulsionEfficiency_def mission_with_def)
  have "?stamp (?c (frozen_clock x)) = Some (Num x)" for x
    by (simp add: calculateInterceptTrajectory_eq isp points_nth trajectoryPoint_time
          frozen_clock_def)
  from this [of 0] this [of 1] eq show False
    by simp
qed

text \<open>
  Claim C5, amended. The result of \<^verbatim>\<open>calculateInterceptTrajectory\<close> is a function of its
  arguments and of the wall clock, which enters the timestamps only: the timestamp of
  point \<open>i\<close> is the clock reading of iteration \<open>i\<close> plus \<open>i/100\<close> times the flight time
  times 1000 (milliseconds), and under another clock every other field of every point and
  all aggregates are the same.
\<close>

theorem trajectory_clock_only_in_time:
  assumes "calculateInterceptTrajectory clock s t tof config = Inr traj"
  shows "\<exists>traj'. calculateInterceptTrajectory clock' s t tof config = Inr traj'
    \<and> length (points traj) = 101 \<and> length (points traj') = 101
    \<and> totalDeltaV traj' = totalDeltaV traj
    \<and> totalFuelUsed traj' = totalFuelUsed traj
    \<and> flightTime traj' = flightTime traj
    \<and> interceptProbability traj' = interceptProbability traj
    \<and> (\<forall>i\<le>100.
          pt_time (points traj ! i) = Num (clock i) + Num (real i / 100) * tof * Num 1000
        \<and> points traj' ! i =
            (points traj ! i)\<lparr>pt_time := Num (clock' i) + Num (real i / 100) * tof * Num 1000\<rparr>)"
proof -
  from calculateInterceptTrajectory_Inr [OF assms] obtain isp where
    isp: "property_isp (object_get propulsionEfficiency (propulsionType config)) = Inr isp"
    and tr: "traj = trajectory_record clock s t tof config isp"
    by auto
  let ?traj' = "trajectory_record clock' s t tof config isp"
  have call: "calculateInterceptTrajectory clock' s t tof config = Inr ?traj'"
    by (simp add: calculateInterceptTrajectory_eq isp)
  have agg: "totalDeltaV ?traj' = totalDeltaV traj" "totalFuelUsed ?traj' = totalFuelUsed traj"
    "flightTime ?traj' = flightTime traj" "interceptProbability ?traj' = interceptProbability traj"
    by (simp_all add: tr trajectory_record_def)
  have pts: "pt_time (points traj ! i) = Num (clock i) + Num (real i / 100) * tof * Num 1000
        \<and> points ?traj' ! i =
            (points traj ! i)\<lparr>pt_time := Num (clock' i) + Num (real i / 100) * tof * Num 1000\<rparr>"
    if "i \<le> 100" for i
    unfolding tr points_nth [OF that] trajectoryPoint_time
    by (simp add: trajectoryPoint_clock [of "clock' i" _ _ _ _ _ "clock i"])
  show ?thesis
    using call agg pts length_points [of clock' s t tof config isp]
      length_points [of clock s t tof config isp]
    unfolding tr by blast
qed

text \<open>
  Witness of C5 amended: the call of the counterexample under a clock that reads 5, seen
  from a clock that reads 9. Point 50 is stamped \<open>5 + 0.5 \<sqdot> 17280000 \<sqdot> 1000\<close>.
\<close>

theorem trajectory_clock_only_in_time_witness:
  "\<exists>traj traj'.
     calculateInterceptTrajectory (frozen_clock 5) (Num 1, Num 0, Num 0) (Num 1.524, Num 0, Num 0)
       (Num 17280000) (mission_with ''chemical'') = Inr traj
   \<and> calculateInterceptTrajectory (frozen_clock 9) (Num 1, Num 0, Num 0) (Num 1.524, Num 0, Num 0)
       (Num 17280000) (mission_with ''chemical'') = Inr traj'
   \<and> totalDeltaV traj' = totalDeltaV traj
   \<and> pt_time (points traj ! 50) = Num 8640000005
   \<and> points traj' ! 50 = (points traj ! 50)\<lparr>pt_time := Num 8640000009\<rparr>"
proof -
  obtain isp where "property_isp (object_get propulsionEfficiency
      (propulsionType (mission_with ''chemical''))) = Inr isp"
    by (auto simp add: object_get_def propulsionEfficiency_def mission_with_def)
  then obtain traj where call: "calculateInterceptTrajectory (frozen_clock 5) (Num 1, Num 0, Num 0)
            (Num 1.524, Num 0, Num 0) (Num 17280000) (mission_with ''chemical'') = Inr traj"
    by (simp add: calculateInterceptTrajectory_eq)
  from trajectory_clock_only_in_time [OF call, of "frozen_clock 9"] obtain traj' where
    c': "calculateInterceptTrajectory (frozen_clock 9) (Num 1, Num 0, Num 0)
       (Num 1.524, Num 0, Num 0) (Num 17280000) (mission_with ''chemical'') = Inr traj'"
    and dv: "totalDeltaV traj' = totalDeltaV traj"
    and pts: "\<forall>i\<le>100.
          pt_time (points traj ! i) =
            Num (frozen_clock 5 i) + Num (real i / 100) * Num 17280000 * Num 1000
        \<and> points traj' ! i = (points traj ! i)
            \<lparr>pt_time := Num (frozen_clock 9 i) + Num (real i / 100) * Num 17280000 * Num 1000\<rparr>"
    by blast
  have "(50::nat) \<le> 100" by simp
  with pts have "pt_time (points traj ! 50) =
            Num (frozen_clock 5 50) + Num (real 50 / 100) * Num 17280000 * Num 1000
        \<and> points traj' ! 50 = (points traj ! 50)
            \<lparr>pt_time := Num (frozen_clock 9 50) + Num (real 50 / 100) * Num 17280000 * Num 1000\<rparr>"
    by blast
  then have "pt_time (points traj ! 50) = Num 8640000005
     \<and> points traj' ! 50 = (points traj ! 50)\<lparr>pt_time := Num 8640000009\<rparr>"
    by (simp add: frozen_clock_def)
  with call c' dv show ?thesis by blast
qed

lemma visviva_nonneg:
  fixes m1 m2 :: real
  assumes "0 < m1" "0 < m2"
  shows "0 \<le> 2 / m1 - 1 / ((m1 + m2) / 2)"
proof -
  have "2 / m1 - 1 / ((m1 + m2) / 2) = 2 * m2 / (m1 * (m1 + m2))"
    using assms by (simp add: field_simps)
  also have "0 \<le> \<dots>" using assms by simp
  finally show ?thesis .
qed

lemma calculateDeltaV_Num:
  assumes "0 < sqrt (x0 * x0 + x1 * x1 + x2 * x2)" "0 < sqrt (y0 * y0 + y1 * y1 + y2 * y2)"
  shows "calculateDeltaV (Num x0, Num x1, Num x2) (Num y0, Num y1, Num y2) tof =
     Num (deltaV_real (sqrt (x0 * x0 + x1 * x1 + x2 * x2)) (sqrt (y0 * y0 + y1 * y1 + y2 * y2)))"
proof -
  define m1 where "m1 = sqrt (x0 * x0 + x1 * x1 + x2 * x2)"
  define m2 where "m2 = sqrt (y0 * y0 + y1 * y1 + y2 * y2)"
  have pos: "0 < m1" "0 < m2" using assms by (simp_all add: m1_def m2_def)
  have s1: "\<not> x0 * x0 + x1 * x1 + x2 * x2 < 0" and s2: "\<not> y0 * y0 + y1 * y1 + y2 * y2 < 0"
    by (simp_all add: not_less)
  have a1: "\<not> GM * (2 / m1 - 1 / ((m1 + m2) / 2)) < 0"
    using visviva_nonneg [OF pos] by (simp add: GM_def not_less)
  have a2: "\<not> GM * (2 / m2 - 1 / ((m1 + m2) / 2)) < 0"
    using visviva_nonneg [OF pos(2) pos(1)] by (simp add: GM_def not_less add.commute)
  have c1: "\<not> GM / m1 < 0" and c2: "\<not> GM / m2 < 0"
    using pos by (simp_all add: GM_def not_less)
  have ne: "m1 \<noteq> 0" "m2 \<noteq> 0" "(m1 + m2) / 2 \<noteq> 0" using pos by simp_all
  show ?thesis
    unfolding calculateDeltaV_def deltaV_real_def Let_def prod.case Constants_GM_SUN_def
      GM_def [symmetric] m1_def [symmetric] m2_def [symmetric]
    using s1 s2 a1 a2 c1 c2 ne
    by (simp add: m1_def [symmetric] m2_def [symmetric] GM_def [symmetric])
qed

lemma abs_sum_zero_iff:
  fixes u v w z :: real
  shows "\<bar>u - v\<bar> + \<bar>w - z\<bar> = 0 \<longleftrightarrow> u = v \<and> w = z"
  by arith

lemma visviva_circular_iff:
  fixes m1 m2 g :: real
  assumes "0 < m1" "0 < m2" "0 < g"
  shows "g * (2 / m1 - 1 / ((m1 + m2) / 2)) = g / m1 \<longleftrightarrow> m1 = m2"
proof -
  have nz: "m1 \<noteq> 0" "m1 + m2 \<noteq> 0" "g \<noteq> 0" using assms by simp_all
  have "g * (2 / m1 - 1 / ((m1 + m2) / 2)) = g / m1 \<longleftrightarrow>
        g * (2 / m1 - 1 / ((m1 + m2) / 2)) = g * (1 / m1)"
    by simp
  also have "\<dots> \<longleftrightarrow> 2 / m1 - 1 / ((m1 + m2) / 2) = 1 / m1"
    using nz(3) by (simp only: mult_cancel_left) simp
  also have "\<dots> \<longleftrightarrow> m1 = m2"
    using nz by (auto simp add: field_simps)
  finally show ?thesis .
qed

lemma deltaV_real_zero_iff:
  assumes "0 < m1" "0 < m2"
  shows "deltaV_real m1 m2 = 0 \<longleftrightarrow> m1 = m2"
proof -
  have e1: "GM * (2 / m1 - 1 / ((m1 + m2) / 2)) = GM / m1 \<longleftrightarrow> m1 = m2"
    by (rule visviva_circular_iff [OF assms]) (simp add: GM_def)
  have e2: "GM * (2 / m2 - 1 / ((m1 + m2) / 2)) = GM / m2 \<longleftrightarrow> m1 = m2"
    using visviva_circular_iff [OF assms(2) assms(1), of GM] by (auto simp add: GM_def add.commute)
  have "deltaV_real m1 m2 = 0 \<longleftrightarrow>
     sqrt (GM * (2 / m1 - 1 / ((m1 + m2) / 2))) = sqrt (GM / m1) \<and>
     sqrt (GM * (2 / m2 - 1 / ((m1 + m2) / 2))) = sqrt (GM / m2)"
    unfolding deltaV_real_def by (simp only: abs_sum_zero_iff)
  also have "\<dots> \<longleftrightarrow> m1 = m2"
    unfolding real_sqrt_eq_iff e1 e2 by simp
  finally show ?thesis .
qed

lemma deltaV_real_nonneg: "0 \<le> deltaV_real m1 m2"
  by (simp add: deltaV_real_def)

lemma meters_Num: "meters (Num x0, Num x1, Num x2) =
   (Num (x0 * 149597870.7 * 1000), Num (x1 * 149597870.7 * 1000), Num (x2 * 149597870.7 * 1000))"
  by (simp only: meters_def vec_map_def Constants_AU_def prod.case times_number.simps)

lemma sqrt_scaled:
  fixes a b :: real
  assumes "0 \<le> a" "0 \<le> b"
  shows "sqrt (x0 * a * b * (x0 * a * b) + x1 * a * b * (x1 * a * b) + x2 * a * b * (x2 * a * b))
       = a * b * sqrt (x0 * x0 + x1 * x1 + x2 * x2)"
proof -
  have "x0 * a * b * (x0 * a * b) + x1 * a * b * (x1 * a * b) + x2 * a * b * (x2 * a * b)
       = (a * b)\<^sup>2 * (x0 * x0 + x1 * x1 + x2 * x2)"
    by (simp add: power2_eq_square algebra_simps)
  then show ?thesis using assms by (simp add: real_sqrt_mult)
qed

lemma norm_pos:
  fixes x0 x1 x2 :: real
  assumes "x0 \<noteq> 0 \<or> x1 \<noteq> 0 \<or> x2 \<noteq> 0"
  shows "0 < sqrt (x0 * x0 + x1 * x1 + x2 * x2)"
proof -
  have "x0 * x0 + x1 * x1 + x2 * x2 \<noteq> 0" using assms by (simp add: add_nonneg_eq_0_iff)
  moreover have "0 \<le> x0 * x0 + x1 * x1 + x2 * x2" by simp
  ultimately have "0 < x0 * x0 + x1 * x1 + x2 * x2" by linarith
  then show ?thesis by simp
qed

lemma calculateDeltaV_meters:
  assumes "0 < sqrt (s0 * s0 + s1 * s1 + s2 * s2)" and "0 < sqrt (t0 * t0 + t1 * t1 + t2 * t2)"
  shows "calculateDeltaV (meters (Num s0, Num s1, Num s2)) (meters (Num t0, Num t1, Num t2)) tof =
     Num (deltaV_real (149597870.7 * 1000 * sqrt (s0 * s0 + s1 * s1 + s2 * s2))
                      (149597870.7 * 1000 * sqrt (t0 * t0 + t1 * t1 + t2 * t2)))"
proof -
  have sc: "sqrt (x0 * 149597870.7 * 1000 * (x0 * 149597870.7 * 1000)
              + x1 * 149597870.7 * 1000 * (x1 * 149597870.7 * 1000)
              + x2 * 149597870.7 * 1000 * (x2 * 149597870.7 * 1000))
      = 149597870.7 * 1000 * sqrt (x0 * x0 + x1 * x1 + x2 * x2)"
    for x0 x1 x2 :: real
    by (rule sqrt_scaled) simp_all
  have k: "0 < 149597870.7 * 1000 * sqrt (s0 * s0 + s1 * s1 + s2 * s2)"
      "0 < 149597870.7 * 1000 * sqrt (t0 * t0 + t1 * t1 + t2 * t2)"
    using assms by simp_all
  show ?thesis
    unfolding meters_Num
    by (subst calculateDeltaV_Num) (simp_all only: sc k)
qed

lemma abs_sum_not_negative: "\<not> Math_abs x + Math_abs y < Num 0"
  by (cases x; cases y) simp_all

lemma calculateDeltaV_not_negative: "\<not> calculateDeltaV r1 r2 tof < Num 0"
proof -
  obtain a b c where r1: "r1 = (a, b, c)" by (cases r1) auto
  obtain a' b' c' where r2: "r2 = (a', b', c')" by (cases r2) auto
  show ?thesis
    unfolding r1 r2 calculateDeltaV_def Let_def prod.case
    by (rule abs_sum_not_negative)
qed

lemma times_one_number: "x * Num 1 = x"
  by (cases x) simp_all

lemma times_zero_number: "x * Num 0 = (if finite_number x then Num 0 else NaN)"
  by (cases x) simp_all

text \<open>
  Claim C4, as the specification states it, fails in its last part: \<^verbatim>\<open>calculateDeltaV\<close>
  reads only the two distances from the Sun, so two distinct positions at the same
  distance give \<open>totalDeltaV = 0\<close>. And with a position at the origin the fuel mass is NaN
  at every point, the last one included.
\<close>

theorem equal_distance_deltaV_counterexample:
  "map_sum id totalDeltaV
     (calculateInterceptTrajectory (frozen_clock 0) (Num 1, Num 0, Num 0) (Num 0, Num 1, Num 0)
        (Num 17280000) (mission_with ''chemical'')) = Inr (Num 0)
   \<and> map_sum id (pt_fuelMass \<circ> last \<circ> points)
     (calculateInterceptTrajectory (frozen_clock 0) (Num 0, Num 0, Num 0) (Num 1, Num 0, Num 0)
        (Num 17280000) (mission_with ''chemical'')) = Inr NaN"
proof -
  have v: "propulsionType (mission_with ''chemical'') \<in> {''chemical'', ''ion'', ''nuclear''}"
    by (simp add: mission_with_def)
  obtain isp where isp: "property_isp (object_get propulsionEfficiency
      (propulsionType (mission_with ''chemical''))) = Inr (Num isp)" "0 < isp"
    using valid_isp [OF v] by blast
  have "calculateDeltaV (meters (Num 1, Num 0, Num 0)) (meters (Num 0, Num 1, Num 0)) tof =
      Num (deltaV_real (149597870.7 * 1000 * sqrt (1 * 1 + 0 * 0 + 0 * 0))
                       (149597870.7 * 1000 * sqrt (0 * 0 + 1 * 1 + 0 * 0)))" for tof
    by (rule calculateDeltaV_meters) simp_all
  moreover have "deltaV_real (149597870.7 * 1000 * sqrt (1 * 1 + 0 * 0 + 0 * 0))
                       (149597870.7 * 1000 * sqrt (0 * 0 + 1 * 1 + 0 * 0)) = 0"
    by (subst deltaV_real_zero_iff) simp_all
  ultimately have a: "map_sum id totalDeltaV
     (calculateInterceptTrajectory (frozen_clock 0) (Num 1, Num 0, Num 0) (Num 0, Num 1, Num 0)
        (Num 17280000) (mission_with ''chemical'')) = Inr (Num 0)"
    by (simp add: calculateInterceptTrajectory_eq isp trajectory_record_def del: upt_Suc)
  have d: "calculateDeltaV (meters (Num 0, Num 0, Num 0)) (meters (Num 1, Num 0, Num 0)) tof = NaN"
    for tof
    by (simp add: calculateDeltaV_def meters_def vec_map_def Constants_AU_def
          Constants_GM_SUN_def Let_def minus_number_def)
  have f: "calculateFuelMass NaN (Num isp) (Num 1000) = NaN"
    by (simp add: calculateFuelMass_def)
  have "last (points (trajectory_record (frozen_clock 0) (Num 0, Num 0, Num 0) (Num 1, Num 0, Num 0)
          (Num 17280000) (mission_with ''chemical'') (Num isp))) =
        trajectoryPoint (frozen_clock 0 100) (meters (Num 0, Num 0, Num 0))
          (meters (Num 1, Num 0, Num 0)) (Num 17280000) NaN 100 100"
    unfolding trajectory_record_def
    by (simp add: last_map d f del: upt_Suc)
  then have b: "map_sum id (pt_fuelMass \<circ> last \<circ> points)
     (calculateInterceptTrajectory (frozen_clock 0) (Num 0, Num 0, Num 0) (Num 1, Num 0, Num 0)
        (Num 17280000) (mission_with ''chemical'')) = Inr NaN"
    by (simp add: calculateInterceptTrajectory_eq isp trajectoryPoint_def meters_def vec_map_def
          Let_def)
  from a b show ?thesis by blast
qed

text \<open>
  Claim C4, amended. For a valid propulsion type and finite start and target positions
  \<^verbatim>\<open>calculateInterceptTrajectory\<close> returns 101 points. Point \<open>i\<close> is the source's
  interpolation at \<open>t = i/100\<close>, converted back to AU; its fuel mass is
  \<open>totalFuelUsed \<sqdot> (1 - i/100)\<close>, which is \<open>totalFuelUsed\<close> at point 0 and, at point 100, 0
  when \<open>totalFuelUsed\<close> is finite and NaN when it is not; its acceleration is the zero
  vector. \<open>totalDeltaV\<close> is never negative, and it is positive when the distances of start
  and target from the origin lie between 0.001 and 1000 AU and differ by at least one
  percent of the start's distance. The expressions are the source's, operation by
  operation; only the last statement rests on exact arithmetic, with a margin far above
  the rounding of doubles.
\<close>

theorem interceptTrajectory_shape:
  assumes "propulsionType config \<in> {''chemical'', ''ion'', ''nuclear''}"
  shows "\<exists>traj. calculateInterceptTrajectory clock (Num s0, Num s1, Num s2) (Num t0, Num t1, Num t2)
             tof config = Inr traj
    \<and> length (points traj) = 101
    \<and> (\<forall>i\<le>100.
          pt_position (points traj ! i) =
            ((Num s0 * Constants_AU * Num 1000 + Num (real i) / Num 100 *
                (Num t0 * Constants_AU * Num 1000 - Num s0 * Constants_AU * Num 1000))
               / Constants_AU / Num 1000,
             (Num s1 * Constants_AU * Num 1000 + Num (real i) / Num 100 *
                (Num t1 * Constants_AU * Num 1000 - Num s1 * Constants_AU * Num 1000))
               / Constants_AU / Num 1000,
             (Num s2 * Constants_AU * Num 1000 + Num (real i) / Num 100 *
                (Num t2 * Constants_AU * Num 1000 - Num s2 * Constants_AU * Num 1000))
               / Constants_AU / Num 1000)
        \<and> pt_fuelMass (points traj ! i) = totalFuelUsed traj * (Num 1 - Num (real i) / Num 100)
        \<and> pt_acceleration (points traj ! i) = (Num 0, Num 0, Num 0))
    \<and> pt_fuelMass (points traj ! 0) = totalFuelUsed traj
    \<and> pt_fuelMass (points traj ! 100) =
        (if finite_number (totalFuelUsed traj) then Num 0 else NaN)
    \<and> \<not> totalDeltaV traj < Num 0
    \<and> (1 / 1000 \<le> sqrt (s0 * s0 + s1 * s1 + s2 * s2)
         \<and> sqrt (s0 * s0 + s1 * s1 + s2 * s2) \<le> 1000
         \<and> 1 / 1000 \<le> sqrt (t0 * t0 + t1 * t1 + t2 * t2)
         \<and> sqrt (t0 * t0 + t1 * t1 + t2 * t2) \<le> 1000
         \<and> sqrt (s0 * s0 + s1 * s1 + s2 * s2) / 100
             \<le> \<bar>sqrt (t0 * t0 + t1 * t1 + t2 * t2) - sqrt (s0 * s0 + s1 * s1 + s2 * s2)\<bar>
        \<longrightarrow> Num 0 < totalDeltaV traj)"
proof -
  obtain isp where isp: "0 < isp"
      "property_isp (object_get propulsionEfficiency (propulsionType config)) = Inr (Num isp)"
    using valid_isp [OF assms] by blast
  let ?s = "(Num s0, Num s1, Num s2)" and ?t = "(Num t0, Num t1, Num t2)"
  let ?traj = "trajectory_record clock ?s ?t tof config (Num isp)"
  define S where "S = sqrt (s0 * s0 + s1 * s1 + s2 * s2)"
  define T where "T = sqrt (t0 * t0 + t1 * t1 + t2 * t2)"
  have call: "calculateInterceptTrajectory clock ?s ?t tof config = Inr ?traj"
    by (simp add: calculateInterceptTrajectory_eq isp(2))
  have len: "length (points ?traj) = 101"
    by (rule length_points)
  have F: "totalFuelUsed ?traj =
      calculateFuelMass (calculateDeltaV (meters ?s) (meters ?t) tof) (Num isp) (Num 1000)"
    and D: "totalDeltaV ?traj = calculateDeltaV (meters ?s) (meters ?t) tof"
    by (simp_all add: trajectory_record_def)
  have pt: "pt_position (points ?traj ! i) =
            ((Num s0 * Constants_AU * Num 1000 + Num (real i) / Num 100 *
                (Num t0 * Constants_AU * Num 1000 - Num s0 * Constants_AU * Num 1000))
               / Constants_AU / Num 1000,
             (Num s1 * Constants_AU * Num 1000 + Num (real i) / Num 100 *
                (Num t1 * Constants_AU * Num 1000 - Num s1 * Constants_AU * Num 1000))
               / Constants_AU / Num 1000,
             (Num s2 * Constants_AU * Num 1000 + Num (real i) / Num 100 *
                (Num t2 * Constants_AU * Num 1000 - Num s2 * Constants_AU * Num 1000))
               / Constants_AU / Num 1000)
        \<and> pt_fuelMass (points ?traj ! i) = totalFuelUsed ?traj * (Num 1 - Num (real i) / Num 100)
        \<and> pt_acceleration (points ?traj ! i) = (Num 0, Num 0, Num 0)" if "i \<le> 100" for i
    unfolding F points_nth [OF that]
    by (simp add: trajectoryPoint_def meters_def vec_map_def Let_def)
  have p0: "pt_fuelMass (points ?traj ! 0) = totalFuelUsed ?traj"
    using pt [of 0] by (simp add: times_one_number)
  have p100: "pt_fuelMass (points ?traj ! 100) =
        (if finite_number (totalFuelUsed ?traj) then Num 0 else NaN)"
    using pt [of 100] by (simp add: times_zero_number)
  have nn: "\<not> totalDeltaV ?traj < Num 0"
    unfolding D by (rule calculateDeltaV_not_negative)
  have pos: "Num 0 < totalDeltaV ?traj"
    if h: "1 / 1000 \<le> S \<and> S \<le> 1000 \<and> 1 / 1000 \<le> T \<and> T \<le> 1000 \<and> S / 100 \<le> \<bar>T - S\<bar>"
  proof -
    have S: "0 < S" and T: "0 < T" and ne: "S \<noteq> T" using h by auto
    have "calculateDeltaV (meters ?s) (meters ?t) tof =
        Num (deltaV_real (149597870.7 * 1000 * S) (149597870.7 * 1000 * T))"
      unfolding S_def T_def by (rule calculateDeltaV_meters) (use S T in \<open>simp_all add: S_def T_def\<close>)
    moreover have "deltaV_real (149597870.7 * 1000 * S) (149597870.7 * 1000 * T) \<noteq> 0"
      using S T ne by (subst deltaV_real_zero_iff) simp_all
    moreover have "0 \<le> deltaV_real (149597870.7 * 1000 * S) (149597870.7 * 1000 * T)"
      by (rule deltaV_real_nonneg)
    ultimately show ?thesis by (simp add: D)
  qed
  show ?thesis
    using call len pt p0 p100 nn pos unfolding S_def T_def by blast
qed

text \<open>
  Witness of C4 amended: the example of the specification, from \<open>(1, 0, 0)\<close> AU to
  \<open>(1.524, 0, 0)\<close> AU in 200 days with chemical propulsion.
\<close>

theorem interceptTrajectory_shape_witness:
  "\<exists>traj. calculateInterceptTrajectory (frozen_clock 0) (Num 1, Num 0, Num 0)
            (Num 1.524, Num 0, Num 0) (Num 17280000) (mission_with ''chemical'') = Inr traj
    \<and> length (points traj) = 101
    \<and> pt_position (points traj ! 25) = (Num 1.131, Num 0, Num 0)
    \<and> pt_acceleration (points traj ! 25) = (Num 0, Num 0, Num 0)
    \<and> pt_fuelMass (points traj ! 0) = totalFuelUsed traj
    \<and> Num 0 < totalDeltaV traj"
proof -
  have v: "propulsionType (mission_with ''chemical'') \<in> {''chemical'', ''ion'', ''nuclear''}"
    by (simp add: mission_with_def)
  have T: "sqrt (1.524 * 1.524 + 0 * 0 + 0 * 0) = (1.524::real)"
  proof -
    have "sqrt (1.524 * 1.524 + 0 * 0 + 0 * 0) = sqrt (1.524 * 1.524 :: real)" by simp
    also have "\<dots> = \<bar>1.524\<bar>" by (rule real_sqrt_abs2)
    finally show ?thesis by simp
  qed
  have S: "sqrt (1 * 1 + 0 * 0 + 0 * 0) = (1::real)" by simp
  from interceptTrajectory_shape [OF v, of "frozen_clock 0" 1 0 0 "1.524" 0 0 "Num 17280000"]
  obtain traj where
    call: "calculateInterceptTrajectory (frozen_clock 0) (Num 1, Num 0, Num 0)
            (Num 1.524, Num 0, Num 0) (Num 17280000) (mission_with ''chemical'') = Inr traj"
    and len: "length (points traj) = 101"
    and pts: "\<forall>i\<le>100.
          pt_position (points traj ! i) =
            ((Num 1 * Constants_AU * Num 1000 + Num (real i) / Num 100 *
                (Num 1.524 * Constants_AU * Num 1000 - Num 1 * Constants_AU * Num 1000))
               / Constants_AU / Num 1000,
             (Num 0 * Constants_AU * Num 1000 + Num (real i) / Num 100 *
                (Num 0 * Constants_AU * Num 1000 - Num 0 * Constants_AU * Num 1000))
               / Constants_AU / Num 1000,
             (Num 0 * Constants_AU * Num 1000 + Num (real i) / Num 100 *
                (Num 0 * Constants_AU * Num 1000 - Num 0 * Constants_AU * Num 1000))
               / Constants_AU / Num 1000)
        \<and> pt_fuelMass (points traj ! i) = totalFuelUsed traj * (Num 1 - Num (real i) / Num 100)
        \<and> pt_acceleration (points traj ! i) = (Num 0, Num 0, Num 0)"
    and p0: "pt_fuelMass (points traj ! 0) = totalFuelUsed traj"
    and dv: "1 / 1000 \<le> sqrt (1 * 1 + 0 * 0 + 0 * 0)
         \<and> sqrt (1 * 1 + 0 * 0 + 0 * 0) \<le> (1000::real)
         \<and> 1 / 1000 \<le> sqrt (1.524 * 1.524 + 0 * 0 + 0 * 0)
         \<and> sqrt (1.524 * 1.524 + 0 * 0 + 0 * 0) \<le> (1000::real)
         \<and> sqrt (1 * 1 + 0 * 0 + 0 * 0) / 100
             \<le> \<bar>sqrt (1.524 * 1.524 + 0 * 0 + 0 * 0) - sqrt (1 * 1 + 0 * 0 + 0 * (0::real))\<bar>
        \<longrightarrow> Num 0 < totalDeltaV traj"
    by blast
  have "(25::nat) \<le> 100" by simp
  with pts have "pt_position (points traj ! 25) =
            ((Num 1 * Constants_AU * Num 1000 + Num (real 25) / Num 100 *
                (Num 1.524 * Constants_AU * Num 1000 - Num 1 * Constants_AU * Num 1000))
               / Constants_AU / Num 1000,
             (Num 0 * Constants_AU * Num 1000 + Num (real 25) / Num 100 *
                (Num 0 * Constants_AU * Num 1000 - Num 0 * Constants_AU * Num 1000))
               / Constants_AU / Num 1000,
             (Num 0 * Constants_AU * Num 1000 + Num (real 25) / Num 100 *
                (Num 0 * Constants_AU * Num 1000 - Num 0 * Constants_AU * Num 1000))
               / Constants_AU / Num 1000)
        \<and> pt_acceleration (points traj ! 25) = (Num 0, Num 0, Num 0)"
    by blast
  then have p25: "pt_position (points traj ! 25) = (Num 1.131, Num 0, Num 0)
        \<and> pt_acceleration (points traj ! 25) = (Num 0, Num 0, Num 0)"
    by (simp add: Constants_AU_def)
  have "Num 0 < totalDeltaV traj"
    using dv unfolding S T by simp
  with call len p25 p0 show ?thesis by blast
qed

section \<open>Positions from orbital elements\<close>

lemma solveKeplerEquation_zero:
  assumes "e \<noteq> 1"
  shows "solveKeplerEquation (Num 0) (Num e) default_tolerance = Some (Num 0)"
proof -
  have "solveKeplerEquation (Num 0) (Num e) default_tolerance =
        solveKeplerEquation_loop (Num 0) (Num e) default_tolerance (Num 0) (Num 0)"
    unfolding solveKeplerEquation_def
    by (subst solveKeplerEquation_loop.simps) (simp add: default_tolerance_def assms Let_def)
  also have "\<dots> = Some (Num 0)"
    by (subst solveKeplerEquation_loop.simps) (simp add: default_tolerance_def)
  finally show ?thesis .
qed

lemma circle_sq:
  fixes c s k :: real
  assumes "s\<^sup>2 + c\<^sup>2 = 1"
  shows "c * k * (c * k) + s * k * (s * k) = k\<^sup>2"
proof -
  have "c * k * (c * k) + s * k * (s * k) = k\<^sup>2 * (s\<^sup>2 + c\<^sup>2)"
    by (simp add: power2_eq_square algebra_simps)
  then show ?thesis by (simp add: assms)
qed

lemma circle_norm:
  "sqrt (cos w * r / d * (cos w * r / d) + sin w * r / d * (sin w * r / d) + 0 * 0) = \<bar>r / d\<bar>"
proof -
  have "cos w * (r / d) * (cos w * (r / d)) + sin w * (r / d) * (sin w * (r / d)) = (r / d)\<^sup>2"
    by (rule circle_sq) simp
  then show ?thesis by simp
qed

lemma circle_nonneg:
  "\<not> cos w * r / d * (cos w * r / d) + sin w * r / d * (sin w * r / d) + 0 * 0 < (0::real)"
proof -
  have "cos w * (r / d) * (cos w * (r / d)) + sin w * (r / d) * (sin w * (r / d)) = (r / d)\<^sup>2"
    by (rule circle_sq) simp
  then show ?thesis by simp
qed

lemma meanMotion_Earth: "\<exists>n. meanMotion (Num 1) Constants_SOLAR_MASS = Num n"
  by (simp add: meanMotion_def Constants_AU_def Constants_G_def Constants_SOLAR_MASS_def)

lemma Earth_position_at_epoch:
  "\<exists>v. calculatePositionAtTime PLANETARY_ELEMENTS_Earth (Num 2451545.0) =
     Some ((Num (cos (114.2 * (pi / 180)) * 0.983 / 149597870.7),
            Num (sin (114.2 * (pi / 180)) * 0.983 / 149597870.7), Num 0), v)"
proof -
  obtain n where n: "meanMotion (Num 1) Constants_SOLAR_MASS = Num n"
    using meanMotion_Earth by blast
  have nu: "calculateTrueAnomaly (Num 0) (Num 0.017) = Num 0"
    by (simp add: calculateTrueAnomaly_def)
  have r: "(1 - 0.017 * 0.017) / (1 + 0.017) = (0.983::real)" by simp
  have sv: "fst (orbitalStateVectors PLANETARY_ELEMENTS_Earth (Num 0)) = (Num 0.983, Num 0)"
    by (simp add: orbitalStateVectors_def PLANETARY_ELEMENTS_Earth_def Let_def r)
  obtain vx vy where v: "snd (orbitalStateVectors PLANETARY_ELEMENTS_Earth (Num 0)) = (vx, vy)"
    by (cases "snd (orbitalStateVectors PLANETARY_ELEMENTS_Earth (Num 0))") auto
  have te: "transformToEcliptic (Num 0.983) (Num 0) (Num 0) PLANETARY_ELEMENTS_Earth =
     (Num (cos (114.2 * (pi / 180)) * 0.983), Num (sin (114.2 * (pi / 180)) * 0.983), Num 0)"
    by (simp add: transformToEcliptic_def PLANETARY_ELEMENTS_Earth_def Let_def degToRad_def
          Math_PI_def)
  obtain VX VY VZ where
    tv: "transformToEcliptic vx vy (Num 0) PLANETARY_ELEMENTS_Earth = (VX, VY, VZ)"
    by (cases "transformToEcliptic vx vy (Num 0) PLANETARY_ELEMENTS_Earth") auto
  have e: "el_e PLANETARY_ELEMENTS_Earth = Num 0.017" "el_a PLANETARY_ELEMENTS_Earth = Num 1"
     "el_epoch PLANETARY_ELEMENTS_Earth = Num 2451545.0"
    by (simp_all add: PLANETARY_ELEMENTS_Earth_def)
  have "calculatePositionAtTime PLANETARY_ELEMENTS_Earth (Num 2451545.0) =
    Some ((Num (cos (114.2 * (pi / 180)) * 0.983 / 149597870.7),
           Num (sin (114.2 * (pi / 180)) * 0.983 / 149597870.7), Num 0),
          (VX / Num 1000, VY / Num 1000, VZ / Num 1000))"
    unfolding calculatePositionAtTime_def
    using sv v te tv nu
    by (simp add: e Let_def n Constants_DAY_SECONDS_def solveKeplerEquation_zero
          Constants_AU_def)
  then show ?thesis by blast
qed

text \<open>
  Claim C2 fails on the code. At Earth's own epoch the pipeline returns a position of
  length \<open>0.983 / 149597870.7\<close>, about \<open>6.6 \<sqdot> 10\<^sup>-\<^sup>9\<close>, far below \<open>1 - 0.02\<close>. The radius
  \<open>r = |a| (1 - e\<^sup>2) / (1 + e cos \<nu>)\<close> is in AU already, since \<open>a\<close> is in AU, and
  \<^verbatim>\<open>calculatePositionAtTime\<close> divides it by \<^verbatim>\<open>Constants.AU\<close> (kilometers per AU) once more
  under the comment "Convert to AU".
\<close>

theorem Earth_position_magnitude_at_epoch:
  "map_option (magnitude \<circ> fst)
     (calculatePositionAtTime PLANETARY_ELEMENTS_Earth (Num 2451545.0)) =
     Some (Num (0.983 / 149597870.7))
   \<and> Num (0.983 / 149597870.7) < Num (1 - 0.02)"
proof -
  obtain v where p: "calculatePositionAtTime PLANETARY_ELEMENTS_Earth (Num 2451545.0) =
     Some ((Num (cos (114.2 * (pi / 180)) * 0.983 / 149597870.7),
            Num (sin (114.2 * (pi / 180)) * 0.983 / 149597870.7), Num 0), v)"
    using Earth_position_at_epoch by blast
  have m: "magnitude (Num (cos (114.2 * (pi / 180)) * 0.983 / 149597870.7),
                      Num (sin (114.2 * (pi / 180)) * 0.983 / 149597870.7), Num 0)
     = Num (0.983 / 149597870.7)"
    unfolding magnitude_def
    by (simp only: prod.case times_number.simps plus_number.simps Math_sqrt.simps
          circle_norm circle_nonneg if_False) simp
  have "map_option (magnitude \<circ> fst)
     (calculatePositionAtTime PLANETARY_ELEMENTS_Earth (Num 2451545.0)) =
     Some (Num (0.983 / 149597870.7))"
    by (simp only: p option.map comp_apply fst_conv m)
  moreover have "Num (0.983 / 149597870.7) < Num (1 - 0.02)"
    by simp
  ultimately show ?thesis by blast
qed

lemma solveHyperbolicKepler_parabolic_epoch:
  assumes "M = Num 0 \<or> M = NaN"
  shows "solveHyperbolicKepler M (Num 1) default_tolerance = Some NaN"
proof -
  have "solveHyperbolicKepler M (Num 1) default_tolerance =
      solveHyperbolicKepler_loop M (Num 1) default_tolerance NaN NaN"
    unfolding solveHyperbolicKepler_def using assms
    by (subst solveHyperbolicKepler_loop.simps) (auto simp add: default_tolerance_def)
  also have "\<dots> = Some NaN"
    by (subst solveHyperbolicKepler_loop.simps) (simp add: default_tolerance_def)
  finally show ?thesis .
qed

lemma times_zero_cases: "n * Num 0 = Num 0 \<or> n * Num 0 = NaN"
  by (cases n) simp_all

lemma calculateTrueAnomalyHyperbolic_parabolic:
  "calculateTrueAnomalyHyperbolic (Num H) (Num 1) =
     (if H = 0 then NaN else if 0 < H then Num pi else Num (- pi))"
  by (simp add: calculateTrueAnomalyHyperbolic_def)

lemma calculatePositionAtTime_parabolic_epoch:
  "calculatePositionAtTime
     \<lparr>el_a = a, el_e = Num 1, el_i = i, el_omega = w, el_Omega = W, el_M = M,
      el_epoch = Num t0\<rparr> (Num t0) = Some ((NaN, NaN, NaN), (NaN, NaN, NaN))"
proof -
  let ?n = "Math_sqrt (Constants_GM_SUN / Math_pow (Math_abs a * Constants_AU * Num 1000) 3)"
  have k: "solveHyperbolicKepler (?n * Num 0) (Num 1) default_tolerance = Some NaN"
    by (rule solveHyperbolicKepler_parabolic_epoch) (rule times_zero_cases)
  have nu: "calculateTrueAnomalyHyperbolic NaN (Num 1) = NaN"
    by (simp add: calculateTrueAnomalyHyperbolic_def)
  have sv: "orbitalStateVectors el NaN = ((NaN, NaN), (NaN, NaN))" for el
    by (simp add: orbitalStateVectors_def Let_def)
  have te: "transformToEcliptic NaN NaN (Num 0) el = (NaN, NaN, NaN)" for el
    by (simp add: transformToEcliptic_def Let_def)
  show ?thesis
    unfolding calculatePositionAtTime_def
    by (simp add: Let_def Constants_DAY_SECONDS_def k nu sv te)
qed

text \<open>
  Claim C3, as the specification states it, fails: no function of the engine raises
  \<^verbatim>\<open>UnsupportedOrbitType\<close>. With \<open>e = 1\<close> and \<open>H = 0\<close> the conversion computes
  \<open>sqrt (2 / 0) \<sqdot> tanh 0 = Infinity \<sqdot> 0\<close> and returns NaN; and the state of 3I/ATLAS with
  its eccentricity set to 1, at its epoch, is NaN in every component.
\<close>

theorem parabolic_NaN_counterexample:
  "calculateTrueAnomalyHyperbolic (Num 0) (Num 1) = NaN
   \<and> calculatePositionAtTime (ATLAS_3I_ELEMENTS\<lparr>el_e := Num 1\<rparr>) (Num 2460146.5) =
       Some ((NaN, NaN, NaN), (NaN, NaN, NaN))"
  using calculatePositionAtTime_parabolic_epoch
    [of "Num (- 2.1)" "Num 175.1" "Num 310.4" "Num 87.2" "Num 0" "2460146.5"]
  by (simp add: calculateTrueAnomalyHyperbolic_parabolic ATLAS_3I_ELEMENTS_def)

text \<open>
  Claim C3, amended. For \<open>e = 1\<close> nothing fails: \<^verbatim>\<open>calculateTrueAnomalyHyperbolic\<close> returns
  NaN for \<open>H = 0\<close> and \<open>\<pi>\<close> or \<open>-\<pi>\<close>, with the sign of \<open>H\<close>, for any other finite \<open>H\<close>; and
  \<^verbatim>\<open>calculatePositionAtTime\<close>, for any elements with \<open>e = 1\<close> evaluated at their epoch,
  returns a position and a velocity whose components are all NaN.
\<close>

theorem parabolic_orbit_no_failure:
  "calculateTrueAnomalyHyperbolic (Num H) (Num 1) =
     (if H = 0 then NaN else if 0 < H then Num pi else Num (- pi))
   \<and> calculatePositionAtTime
       \<lparr>el_a = a, el_e = Num 1, el_i = i, el_omega = w, el_Omega = W, el_M = M,
        el_epoch = Num t0\<rparr> (Num t0) = Some ((NaN, NaN, NaN), (NaN, NaN, NaN))"
  by (simp only: calculateTrueAnomalyHyperbolic_parabolic calculatePositionAtTime_parabolic_epoch)

text \<open>Witness of C3 amended: \<open>H = 2\<close>, and a parabolic comet at its epoch.\<close>

theorem parabolic_orbit_no_failure_witness:
  "calculateTrueAnomalyHyperbolic (Num 2) (Num 1) = Num pi
   \<and> calculatePositionAtTime
       \<lparr>el_a = Num (- 3), el_e = Num 1, el_i = Num 10, el_omega = Num 20, el_Omega = Num 30,
        el_M = Num 0, el_epoch = Num 2460000\<rparr> (Num 2460000) =
       Some ((NaN, NaN, NaN), (NaN, NaN, NaN))"
  using parabolic_orbit_no_failure
    [of 2 "Num (- 3)" "Num 10" "Num 20" "Num 30" "Num 0" 2460000]
  by simp

section \<open>The Kepler solvers\<close>






















end
